theory Spec2Isabelle
  imports Complex_Main
begin

section \<open>Tensors and errors\<close>

text \<open>
  A one-dimensional tensor is a list. A tensor of two or three dimensions carries its
  shape and an entry function, so that a dimension of size zero keeps the sizes of the
  other dimensions (a nested list would lose them); the entry function is only ever
  read inside the shape. Entries of the tensors of the readout are modelled as real
  numbers: finite values with exact arithmetic. The reconstruction only moves entries,
  so it is written for any entry type with a zero.

  Every exception the code can raise is a value of \<open>error\<close>; a computation that may
  raise returns \<open>error + 'a\<close> with \<open>Inl\<close> for the exception.
\<close>

datatype error =
    ScatterIndexOutOfBounds
  | StackEmptyList
  | ShapeMismatch
  | IndexOutOfRange
  | MaskShapeMismatch

record 'a tensor2 =
  nrows :: nat
  ncols :: nat
  cell :: "nat \<Rightarrow> nat \<Rightarrow> 'a"

record 'a tensor3 =
  dim0 :: nat
  dim1 :: nat
  dim2 :: nat
  cell3 :: "nat \<Rightarrow> nat \<Rightarrow> nat \<Rightarrow> 'a"

text \<open>
  The dataset, as far as the code reads it: \<open>parcels\<close> is a list of index tensors,
  \<open>mask\<close> the validity mask with one row of slots per parcel, \<open>labels\<close> a
  two-dimensional array with one row per voxel, whose first column is the metaparcel
  label of the voxel.
\<close>

record dataset =
  parcels :: "int list list"
  mask :: "bool list list"
  labels :: "int list list"
  num_hemi_voxels :: nat
  num_parcels :: nat
  max_parcel_size :: nat

section \<open>ParcelMask construction (brain\_encoder.\_\_init\_\_)\<close>

text \<open>
  \<^verbatim>\<open>
  self.parcel_mask = (
      torch.stack(
          [torch.zeros(dataset.num_hemi_voxels).scatter_(0, parcel, 1)
           for parcel in dataset.parcels]
      ).permute(1, 0).to(args.device)
  )
  self.embed = nn.Sequential(nn.Linear(self.hidden_dim, dataset.num_hemi_voxels))
  \<close>
  A parcel is a one-dimensional tensor of 64-bit indices, hence an \<open>int list\<close>.
  \<open>scatter_\<close> (here \<open>scatter_inplace\<close>, a name cannot end in an underscore)
  writes the value at each listed index, one index after the other, and raises when an
  index is negative or not below the size of the tensor written to.
  \<open>torch.stack\<close> raises on an empty list. Moving the mask to the device changes no
  entry.
\<close>

definition zeros :: "nat \<Rightarrow> real list" where
  "zeros n = replicate n 0"

definition scatter_inplace :: "real list \<Rightarrow> int list \<Rightarrow> real \<Rightarrow> error + real list" where
  "scatter_inplace self index val =
     (if \<exists>i\<in>set index. i < 0 \<or> int (length self) \<le> i then Inl ScatterIndexOutOfBounds
      else Inr (fold (\<lambda>i v. v[nat i := val]) index self))"

fun scatter_parcels :: "nat \<Rightarrow> int list list \<Rightarrow> error + real list list" where
  "scatter_parcels n [] = Inr []"
| "scatter_parcels n (parcel # rest) =
     (case scatter_inplace (zeros n) parcel 1 of
        Inl e \<Rightarrow> Inl e
      | Inr row \<Rightarrow>
          (case scatter_parcels n rest of
             Inl e \<Rightarrow> Inl e
           | Inr rows \<Rightarrow> Inr (row # rows)))"

definition stack :: "real list list \<Rightarrow> error + real tensor2" where
  "stack ts =
     (case ts of
        [] \<Rightarrow> Inl StackEmptyList
      | t # _ \<Rightarrow>
          if \<exists>u\<in>set ts. length u \<noteq> length t then Inl ShapeMismatch
          else Inr \<lparr>nrows = length ts, ncols = length t, cell = (\<lambda>i j. ts ! i ! j)\<rparr>)"

definition permute_1_0 :: "'a tensor2 \<Rightarrow> 'a tensor2" where
  "permute_1_0 t = \<lparr>nrows = ncols t, ncols = nrows t, cell = (\<lambda>i j. cell t j i)\<rparr>"

definition build_parcel_mask :: "nat \<Rightarrow> int list list \<Rightarrow> error + real tensor2" where
  "build_parcel_mask n ps =
     (case scatter_parcels n ps of
        Inl e \<Rightarrow> Inl e
      | Inr rows \<Rightarrow>
          (case stack rows of
             Inl e \<Rightarrow> Inl e
           | Inr t \<Rightarrow> Inr (permute_1_0 t)))"

text \<open>
  \<open>nn.Linear(in_features, out_features)\<close> holds a weight of shape
  \<open>(out_features, in_features)\<close> and a bias of shape \<open>(out_features)\<close>. Their initial
  values are drawn at random by the library, so the constructor takes them as arguments,
  with the transformer's width \<open>d_model\<close>. The backbone and the transformer are built
  by code outside these sources and hold no part of the readout.
\<close>

record linear =
  in_features :: nat
  out_features :: nat
  weight :: "nat \<Rightarrow> nat \<Rightarrow> real"
  bias :: "nat \<Rightarrow> real"

record brain_encoder =
  hidden_dim :: nat
  num_queries :: nat
  parcel_mask :: "real tensor2"
  embed :: linear

definition brain_encoder_init ::
  "nat \<Rightarrow> (nat \<Rightarrow> nat \<Rightarrow> real) \<Rightarrow> (nat \<Rightarrow> real) \<Rightarrow> dataset \<Rightarrow> error + brain_encoder" where
  "brain_encoder_init d_model w b ds =
     (case build_parcel_mask (num_hemi_voxels ds) (parcels ds) of
        Inl e \<Rightarrow> Inl e
      | Inr m \<Rightarrow>
          Inr \<lparr>hidden_dim = d_model, num_queries = num_parcels ds, parcel_mask = m,
               embed = \<lparr>in_features = d_model, out_features = num_hemi_voxels ds,
                        weight = w, bias = b\<rparr>\<rparr>)"

text \<open>The hypotheses of the specification on a parcel list.\<close>

definition in_range :: "nat \<Rightarrow> int list list \<Rightarrow> bool" where
  "in_range n ps = (\<forall>parcel\<in>set ps. \<forall>i\<in>set parcel. 0 \<le> i \<and> i < int n)"

fun disjoint_parcels :: "int list list \<Rightarrow> bool" where
  "disjoint_parcels [] = True"
| "disjoint_parcels (parcel # rest) =
     ((\<forall>other\<in>set rest. set parcel \<inter> set other = {}) \<and> disjoint_parcels rest)"

section \<open>ReadoutHead (brain\_encoder.forward)\<close>







section \<open>UnwrapReconstructor (engine.unwrap\_fmri)\<close>

text \<open>
  \<^verbatim>\<open>
  def unwrap_fmri(batch_size, fmri_data, dataset, metaparcel_idx):
      recon = torch.zeros(batch_size, *dataset.labels[:, 0].shape)
      for idxs, betas, m in zip(
          dataset.parcels, fmri_data.permute(1, 0, 2), dataset.mask
      ):
          recon[:, idxs] = betas[:, m]
      return recon[:, dataset.labels[:, 0] == metaparcel_idx]
  \<close>
  \<open>betas[:, m]\<close> keeps the columns where the boolean row \<open>m\<close> holds and raises
  unless \<open>m\<close> has one entry per column. The assignment \<open>recon[:, idxs] = vals\<close>
  raises unless \<open>vals\<close> can be broadcast to the shape \<open>(rows of recon, len(idxs))\<close>,
  and unless every index lies in \<open>[-columns, columns)\<close>; a negative index counts from
  the end. It then assigns column after column, so of two writes to one column the
  later stays. \<open>zip\<close> stops with the shortest of its arguments.
\<close>

definition permute_1_0_2 :: "'a tensor3 \<Rightarrow> 'a tensor3" where
  "permute_1_0_2 t =
     \<lparr>dim0 = dim1 t, dim1 = dim0 t, dim2 = dim2 t, cell3 = (\<lambda>p b s. cell3 t b p s)\<rparr>"

definition slices :: "'a tensor3 \<Rightarrow> 'a tensor2 list" where
  "slices t = map (\<lambda>i. \<lparr>nrows = dim1 t, ncols = dim2 t, cell = cell3 t i\<rparr>) [0..<dim0 t]"

definition true_positions :: "bool list \<Rightarrow> nat list" where
  "true_positions m = filter (\<lambda>s. m ! s) [0..<length m]"

definition select_cols :: "'a tensor2 \<Rightarrow> bool list \<Rightarrow> error + 'a tensor2" where
  "select_cols t m =
     (if length m \<noteq> ncols t then Inl MaskShapeMismatch
      else Inr \<lparr>nrows = nrows t, ncols = length (true_positions m),
                cell = (\<lambda>b j. cell t b (true_positions m ! j))\<rparr>)"

definition wrap_index :: "nat \<Rightarrow> int \<Rightarrow> nat" where
  "wrap_index n i = (if i < 0 then nat (i + int n) else nat i)"

definition index_put_cols :: "'a tensor2 \<Rightarrow> int list \<Rightarrow> 'a tensor2 \<Rightarrow> error + 'a tensor2" where
  "index_put_cols recon idxs vals =
     (if \<not> ((nrows vals = nrows recon \<or> nrows vals = 1) \<and>
             (ncols vals = length idxs \<or> ncols vals = 1))
      then Inl ShapeMismatch
      else if \<exists>i\<in>set idxs. i < - int (ncols recon) \<or> int (ncols recon) \<le> i
      then Inl IndexOutOfRange
      else Inr (recon\<lparr>cell := (\<lambda>b.
             fold (\<lambda>j row. row(wrap_index (ncols recon) (idxs ! j) :=
                      cell vals (if nrows vals = 1 then 0 else b)
                                (if ncols vals = 1 then 0 else j)))
                  [0..<length idxs] (cell recon b))\<rparr>))"

fun unwrap_loop ::
  "(int list \<times> 'a tensor2 \<times> bool list) list \<Rightarrow> 'a tensor2 \<Rightarrow> error + 'a tensor2" where
  "unwrap_loop [] recon = Inr recon"
| "unwrap_loop ((idxs, betas, m) # rest) recon =
     (case select_cols betas m of
        Inl e \<Rightarrow> Inl e
      | Inr vals \<Rightarrow>
          (case index_put_cols recon idxs vals of
             Inl e \<Rightarrow> Inl e
           | Inr recon' \<Rightarrow> unwrap_loop rest recon'))"

definition labels_col0 :: "dataset \<Rightarrow> error + int list" where
  "labels_col0 ds =
     (if \<exists>row\<in>set (labels ds). row = [] then Inl IndexOutOfRange
      else Inr (map hd (labels ds)))"

definition unwrap_fmri ::
  "nat \<Rightarrow> 'a::zero tensor3 \<Rightarrow> dataset \<Rightarrow> int \<Rightarrow> error + 'a tensor2" where
  "unwrap_fmri batch_size fmri_data ds metaparcel_idx =
     (case labels_col0 ds of
        Inl e \<Rightarrow> Inl e
      | Inr labs \<Rightarrow>
          (case unwrap_loop
                  (zip (parcels ds) (zip (slices (permute_1_0_2 fmri_data)) (mask ds)))
                  \<lparr>nrows = batch_size, ncols = length labs, cell = (\<lambda>b v. 0)\<rparr> of
             Inl e \<Rightarrow> Inl e
           | Inr recon \<Rightarrow>
               Inr \<lparr>nrows = nrows recon,
                    ncols = length (filter (\<lambda>v. labs ! v = metaparcel_idx) [0..<length labs]),
                    cell = (\<lambda>b j. cell recon b
                              (filter (\<lambda>v. labs ! v = metaparcel_idx) [0..<length labs] ! j))\<rparr>))"








section \<open>Training and evaluation loops (engine.py)\<close>

text \<open>
  A scalar that the loops read with \<open>.item()\<close> is a floating-point number: finite, an
  infinity or not a number. The finite values are modelled as real numbers with exact
  arithmetic; \<open>isfinite\<close> is \<open>math.isfinite\<close>, \<open>fadd\<close> the addition of two such
  scalars and \<open>fdiv\<close> the division by a count, where division of a tensor by a zero
  count gives an infinity or not a number (it does not raise). \<open>positive\<close> is the
  test \<open>max_norm > 0\<close>, false for not a number.
\<close>

datatype fval = Fin real | PInf | NInf | NaN

fun isfinite :: "fval \<Rightarrow> bool" where
  "isfinite (Fin r) = True"
| "isfinite PInf = False"
| "isfinite NInf = False"
| "isfinite NaN = False"

fun fadd :: "fval \<Rightarrow> fval \<Rightarrow> fval" where
  "fadd (Fin a) (Fin b) = Fin (a + b)"
| "fadd NaN y = NaN"
| "fadd x NaN = NaN"
| "fadd PInf NInf = NaN"
| "fadd NInf PInf = NaN"
| "fadd PInf y = PInf"
| "fadd x PInf = PInf"
| "fadd NInf y = NInf"
| "fadd x NInf = NInf"

fun fdiv :: "fval \<Rightarrow> nat \<Rightarrow> fval" where
  "fdiv (Fin a) n =
     (if n = 0 then (if a = 0 then NaN else if 0 < a then PInf else NInf)
      else Fin (a / real n))"
| "fdiv PInf n = PInf"
| "fdiv NInf n = NInf"
| "fdiv NaN n = NaN"

fun positive :: "fval \<Rightarrow> bool" where
  "positive (Fin r) = (0 < r)"
| "positive PInf = True"
| "positive NInf = False"
| "positive NaN = False"

text \<open>
  The model, the criterion, the optimizer and \<open>torch.corrcoef\<close> are arguments of the
  loops or library code: they are taken as functions. \<open>'m\<close> is the state of the model
  and its optimizer, \<open>'x\<close> a batch of images, \<open>'g\<close> a gradient. \<open>forward m training x\<close>
  is \<open>model(imgs)["pred"]\<close> in training or evaluation mode, \<open>backward\<close> the gradient
  that \<open>loss.backward()\<close> leaves after \<open>optimizer.zero_grad()\<close>, for the loss
  normalised by the given count. The calls made on these collaborators are recorded
  in order.
\<close>

record ('m, 'x, 'a, 'g) collaborators =
  forward :: "'m \<Rightarrow> bool \<Rightarrow> 'x \<Rightarrow> 'a tensor3"
  criterion :: "'a tensor3 \<Rightarrow> 'a tensor3 \<Rightarrow> fval"
  backward :: "'m \<Rightarrow> 'x \<Rightarrow> 'a tensor3 \<Rightarrow> nat \<Rightarrow> 'g"
  clip_grad_norm :: "'g \<Rightarrow> fval \<Rightarrow> 'g"
  optimizer_step :: "'m \<Rightarrow> 'g \<Rightarrow> 'm"
  learning_rate :: "'m \<Rightarrow> fval"
  corrcoef :: "'a list \<Rightarrow> 'a list \<Rightarrow> fval"

datatype call =
    ModelForward | ZeroGrad | Backward | ClipGradNorm | OptimizerStep | PrintLoss fval

record wandb_entry =
  training_loss :: fval
  epoch_logged :: int
  training_corr :: fval
  batch_logged :: int

record 'm train_state =
  model :: 'm
  running_loss :: fval
  running_corr :: fval
  meters :: "(string \<times> fval) list"
  wandb :: "wandb_entry list"
  calls :: "call list"

datatype 's outcome = Completed 's | SystemExit int 's | Raised error 's

definition print_freq :: nat where
  "print_freq = 10"

definition num_valid_voxels :: "dataset \<Rightarrow> nat" where
  "num_valid_voxels ds = length (filter (\<lambda>valid. valid) (concat (mask ds)))"

definition flatten :: "'a tensor2 \<Rightarrow> 'a list" where
  "flatten t = concat (map (\<lambda>b. map (cell t b) [0..<ncols t]) [0..<nrows t])"

text \<open>
  \<^verbatim>\<open>
  outputs = model(imgs)["pred"]
  loss = criterion(outputs, targets) / num_valid_voxels
  loss_value = loss.item()
  if not math.isfinite(loss_value):
      print("Loss is {}, stopping training".format(loss_value))
      print(loss_value)
      sys.exit(1)
  optimizer.zero_grad()
  loss.backward()
  if max_norm > 0:
      torch.nn.utils.clip_grad_norm_(model.parameters(), max_norm)
  optimizer.step()
  metric_logger.update(loss=loss_value)
  metric_logger.update(loss_labels=loss_value)
  metric_logger.update(lr=optimizer.param_groups[0]["lr"])
  out = unwrap_fmri(outputs.shape[0], outputs.cpu(), dataset, args.metaparcel_idx)
  y = unwrap_fmri(targets.shape[0], targets.cpu(), dataset, args.metaparcel_idx)
  train_corr = torch.corrcoef(torch.stack([out.flatten(), y.flatten()]))[0, 1].item()
  running_loss += loss.item()
  running_corr += train_corr
  if batch_idx % print_freq == print_freq - 1:
      wandb.log({"Training Loss": running_loss / print_freq, "Epoch": epoch,
                 "Training Corr": running_corr / print_freq,
                 "Batch": batch_idx + epoch * len(data_loader)})
      running_loss = 0
      running_corr = 0
  \<close>
  One pass of the loop body. \<open>torch.stack\<close> raises when the two flattened tensors
  differ in length. The metric logger is code outside these sources; the model keeps
  the updates it is sent, in order.
\<close>

definition train_step ::
  "('m, 'x, 'a::zero, 'g) collaborators \<Rightarrow> dataset \<Rightarrow> int \<Rightarrow> fval \<Rightarrow> int \<Rightarrow> nat \<Rightarrow> nat \<Rightarrow>
   nat \<Rightarrow> 'x \<times> 'a tensor3 \<Rightarrow> 'm train_state \<Rightarrow> 'm train_state outcome" where
  "train_step env ds metaparcel_idx max_norm epoch len_data_loader nvv batch_idx batch st =
     (case batch of (imgs, targets) \<Rightarrow>
        let outputs = forward env (model st) True imgs;
            loss_value = fdiv (criterion env outputs targets) nvv
        in if \<not> isfinite loss_value
           then SystemExit 1
                  (st\<lparr>calls := calls st @ [ModelForward, PrintLoss loss_value,
                                             PrintLoss loss_value]\<rparr>)
           else
             let g = backward env (model st) imgs targets nvv;
                 g' = (if positive max_norm then clip_grad_norm env g max_norm else g);
                 m' = optimizer_step env (model st) g';
                 st1 = st\<lparr>model := m',
                          meters := meters st @ [(''loss'', loss_value),
                                                 (''loss_labels'', loss_value),
                                                 (''lr'', learning_rate env m')],
                          calls := calls st @ [ModelForward, ZeroGrad, Backward] @
                                   (if positive max_norm then [ClipGradNorm] else []) @
                                   [OptimizerStep]\<rparr>
             in case unwrap_fmri (dim0 outputs) outputs ds metaparcel_idx of
                  Inl e \<Rightarrow> Raised e st1
                | Inr out \<Rightarrow>
                    (case unwrap_fmri (dim0 targets) targets ds metaparcel_idx of
                       Inl e \<Rightarrow> Raised e st1
                     | Inr y \<Rightarrow>
                         if length (flatten out) \<noteq> length (flatten y)
                         then Raised ShapeMismatch st1
                         else
                           let train_corr = corrcoef env (flatten out) (flatten y);
                               rl = fadd (running_loss st1) loss_value;
                               rc = fadd (running_corr st1) train_corr
                           in if batch_idx mod print_freq = print_freq - 1
                              then Completed
                                     (st1\<lparr>running_loss := Fin 0, running_corr := Fin 0,
                                          wandb := wandb st1 @
                                            [\<lparr>training_loss = fdiv rl print_freq,
                                              epoch_logged = epoch,
                                              training_corr = fdiv rc print_freq,
                                              batch_logged = int batch_idx +
                                                epoch * int len_data_loader\<rparr>]\<rparr>)
                              else Completed (st1\<lparr>running_loss := rl, running_corr := rc\<rparr>)))"

fun train_loop ::
  "('m, 'x, 'a::zero, 'g) collaborators \<Rightarrow> dataset \<Rightarrow> int \<Rightarrow> fval \<Rightarrow> int \<Rightarrow> nat \<Rightarrow> nat \<Rightarrow>
   nat \<Rightarrow> ('x \<times> 'a tensor3) list \<Rightarrow> 'm train_state \<Rightarrow> 'm train_state outcome" where
  "train_loop env ds mp max_norm epoch len_dl nvv batch_idx [] st = Completed st"
| "train_loop env ds mp max_norm epoch len_dl nvv batch_idx (batch # rest) st =
     (case train_step env ds mp max_norm epoch len_dl nvv batch_idx batch st of
        Completed st' \<Rightarrow> train_loop env ds mp max_norm epoch len_dl nvv (Suc batch_idx) rest st'
      | SystemExit code st' \<Rightarrow> SystemExit code st'
      | Raised e st' \<Rightarrow> Raised e st')"

text \<open>
  \<open>train_one_epoch\<close>: \<open>num_valid_voxels = dataset.mask.sum()\<close> is computed before
  the loop, the running sums start at 0. What the function returns is the averaged
  snapshot that the metric logger computes from the updates it was sent; the model
  returns the final state, which holds these updates.
\<close>

definition train_one_epoch ::
  "('m, 'x, 'a::zero, 'g) collaborators \<Rightarrow> dataset \<Rightarrow> int \<Rightarrow> fval \<Rightarrow> int \<Rightarrow> 'm \<Rightarrow>
   ('x \<times> 'a tensor3) list \<Rightarrow> 'm train_state outcome" where
  "train_one_epoch env ds metaparcel_idx max_norm epoch m data_loader =
     train_loop env ds metaparcel_idx max_norm epoch (length data_loader)
       (num_valid_voxels ds) 0 data_loader
       \<lparr>model = m, running_loss = Fin 0, running_corr = Fin 0, meters = [], wandb = [],
        calls = []\<rparr>"

text \<open>
  \<^verbatim>\<open>
  @torch.no_grad()
  def evaluate(args, model, criterion, data_loader, dataset):
      model.eval()
      preds = []
      ys = []
      num_valid_voxels = dataset.mask.sum()
      for imgs, targets in metric_logger.log_every(data_loader, 25, header):
          outputs = model(imgs)["pred"]
          loss = criterion(outputs, targets) / num_valid_voxels
          preds.append(unwrap_fmri(outputs.shape[0], outputs.cpu(), dataset,
                                   args.metaparcel_idx))
          ys.append(unwrap_fmri(targets.shape[0], targets.cpu(), dataset,
                                args.metaparcel_idx))
          loss_value = loss.item()
          metric_logger.update(loss_labels=loss_value)
      metric_logger.synchronize_between_processes()
      print("Averaged stats:", metric_logger)
      return torch.vstack(ys), torch.vstack(preds)
  \<close>
  \<open>torch.vstack\<close> raises on an empty list and on tensors that differ in their number
  of columns. The value returned is the pair of stacked tensors; the state of the run
  (the updates sent to the metric logger, the calls made) is kept beside it.
\<close>

record 'a eval_state =
  preds :: "'a tensor2 list"
  ys :: "'a tensor2 list"
  eval_meters :: "(string \<times> fval) list"
  eval_calls :: "call list"

definition eval_step ::
  "('m, 'x, 'a::zero, 'g) collaborators \<Rightarrow> dataset \<Rightarrow> int \<Rightarrow> 'm \<Rightarrow> nat \<Rightarrow>
   'x \<times> 'a tensor3 \<Rightarrow> 'a eval_state \<Rightarrow> error + 'a eval_state" where
  "eval_step env ds metaparcel_idx m nvv batch st =
     (case batch of (imgs, targets) \<Rightarrow>
        let outputs = forward env m False imgs;
            loss = fdiv (criterion env outputs targets) nvv
        in case unwrap_fmri (dim0 outputs) outputs ds metaparcel_idx of
             Inl e \<Rightarrow> Inl e
           | Inr p \<Rightarrow>
               (case unwrap_fmri (dim0 targets) targets ds metaparcel_idx of
                  Inl e \<Rightarrow> Inl e
                | Inr y \<Rightarrow>
                    Inr (st\<lparr>preds := preds st @ [p], ys := ys st @ [y],
                            eval_meters := eval_meters st @ [(''loss_labels'', loss)],
                            eval_calls := eval_calls st @ [ModelForward]\<rparr>)))"

fun eval_loop ::
  "('m, 'x, 'a::zero, 'g) collaborators \<Rightarrow> dataset \<Rightarrow> int \<Rightarrow> 'm \<Rightarrow> nat \<Rightarrow>
   ('x \<times> 'a tensor3) list \<Rightarrow> 'a eval_state \<Rightarrow> error + 'a eval_state" where
  "eval_loop env ds mp m nvv [] st = Inr st"
| "eval_loop env ds mp m nvv (batch # rest) st =
     (case eval_step env ds mp m nvv batch st of
        Inl e \<Rightarrow> Inl e
      | Inr st' \<Rightarrow> eval_loop env ds mp m nvv rest st')"

fun vstack_cell :: "'a tensor2 \<Rightarrow> 'a tensor2 list \<Rightarrow> nat \<Rightarrow> nat \<Rightarrow> 'a" where
  "vstack_cell t [] r j = cell t r j"
| "vstack_cell t (u # us) r j =
     (if r < nrows t then cell t r j else vstack_cell u us (r - nrows t) j)"

definition vstack :: "'a tensor2 list \<Rightarrow> error + 'a tensor2" where
  "vstack ts =
     (case ts of
        [] \<Rightarrow> Inl StackEmptyList
      | t # us \<Rightarrow>
          if \<exists>u\<in>set us. ncols u \<noteq> ncols t then Inl ShapeMismatch
          else Inr \<lparr>nrows = sum_list (map nrows ts), ncols = ncols t,
                    cell = vstack_cell t us\<rparr>)"

definition evaluate ::
  "('m, 'x, 'a::zero, 'g) collaborators \<Rightarrow> dataset \<Rightarrow> int \<Rightarrow> 'm \<Rightarrow> ('x \<times> 'a tensor3) list \<Rightarrow>
   error + (('a tensor2 \<times> 'a tensor2) \<times> 'a eval_state)" where
  "evaluate env ds metaparcel_idx m data_loader =
     (case eval_loop env ds metaparcel_idx m (num_valid_voxels ds) data_loader
             \<lparr>preds = [], ys = [], eval_meters = [], eval_calls = []\<rparr> of
        Inl e \<Rightarrow> Inl e
      | Inr st \<Rightarrow>
          (case vstack (ys st) of
             Inl e \<Rightarrow> Inl e
           | Inr all_ys \<Rightarrow>
               (case vstack (preds st) of
                  Inl e \<Rightarrow> Inl e
                | Inr all_preds \<Rightarrow> Inr ((all_ys, all_preds), st))))"

text \<open>The rows of a two-dimensional tensor, used to state what a stacked tensor holds.\<close>

definition rows_of :: "'a tensor2 \<Rightarrow> 'a list list" where
  "rows_of t = map (\<lambda>r. map (cell t r) [0..<ncols t]) [0..<nrows t]"

text \<open>
  The state an outcome carries, whether the outcome is the exit of the process, and a
  name for the loss of a batch as both loops compute it,
  \<open>criterion(model(imgs)["pred"], targets) / num_valid_voxels\<close>.
\<close>

fun state_of :: "'s outcome \<Rightarrow> 's" where
  "state_of (Completed s) = s"
| "state_of (SystemExit code s) = s"
| "state_of (Raised e s) = s"

fun exited :: "'s outcome \<Rightarrow> bool" where
  "exited (SystemExit code s) = True"
| "exited (Completed s) = False"
| "exited (Raised e s) = False"

definition loss_value_of ::
  "('m, 'x, 'a, 'g) collaborators \<Rightarrow> 'm \<Rightarrow> bool \<Rightarrow> nat \<Rightarrow> 'x \<times> 'a tensor3 \<Rightarrow> fval" where
  "loss_value_of env m training nvv batch =
     fdiv (criterion env (forward env m training (fst batch)) (snd batch)) nvv"

section \<open>Properties of the ParcelMask\<close>

lemma fold_update_length:
  "length (fold (\<lambda>i v. v[nat i := val]) index self) = length self"
  by (induction index arbitrary: self) simp_all

lemma fold_update_nth:
  assumes "k < length self"
  shows "fold (\<lambda>i v. v[nat i := val]) index self ! k =
           (if \<exists>i\<in>set index. nat i = k then val else self ! k)"
  using assms
proof (induction index arbitrary: self)
  case Nil
  then show ?case by simp
next
  case (Cons i index)
  have len: "k < length (self[nat i := val])"
    using Cons.prems by simp
  show ?case
    using Cons.IH [OF len] Cons.prems by (auto simp: nth_list_update)
qed

lemma scatter_in_range:
  assumes "\<forall>i\<in>set parcel. 0 \<le> i \<and> i < int n"
  shows "scatter_inplace (zeros n) parcel 1 =
           Inr (map (\<lambda>v. if int v \<in> set parcel then 1 else 0) [0..<n])"
proof -
  have ok: "\<not> (\<exists>i\<in>set parcel. i < 0 \<or> int (length (zeros n)) \<le> i)"
    using assms by (auto simp: zeros_def)
  have "fold (\<lambda>i v. v[nat i := 1]) parcel (zeros n) =
          map (\<lambda>v. if int v \<in> set parcel then 1 else 0) [0..<n]"
  proof (rule nth_equalityI)
    show "length (fold (\<lambda>i v. v[nat i := 1]) parcel (zeros n)) =
            length (map (\<lambda>v. if int v \<in> set parcel then (1::real) else 0) [0..<n])"
      by (simp add: fold_update_length zeros_def)
  next
    fix k
    assume "k < length (fold (\<lambda>i v. v[nat i := 1]) parcel (zeros n))"
    then have k: "k < n"
      by (simp add: fold_update_length zeros_def)
    have mem: "(\<exists>i\<in>set parcel. nat i = k) \<longleftrightarrow> int k \<in> set parcel"
    proof
      assume "\<exists>i\<in>set parcel. nat i = k"
      then obtain i where i: "i \<in> set parcel" "nat i = k" by blast
      with assms have "0 \<le> i" by blast
      with i show "int k \<in> set parcel" by auto
    next
      assume "int k \<in> set parcel"
      then show "\<exists>i\<in>set parcel. nat i = k" by force
    qed
    have "fold (\<lambda>i v. v[nat i := 1]) parcel (zeros n) ! k =
            (if \<exists>i\<in>set parcel. nat i = k then 1 else zeros n ! k)"
      by (rule fold_update_nth) (simp add: zeros_def k)
    then show "fold (\<lambda>i v. v[nat i := 1]) parcel (zeros n) ! k =
            map (\<lambda>v. if int v \<in> set parcel then (1::real) else 0) [0..<n] ! k"
      using k mem by (simp add: zeros_def)
  qed
  then show ?thesis
    using ok by (simp add: scatter_inplace_def)
qed

lemma scatter_out_of_range:
  assumes "\<exists>i\<in>set parcel. i < 0 \<or> int n \<le> i"
  shows "scatter_inplace (zeros n) parcel 1 = Inl ScatterIndexOutOfBounds"
  using assms by (simp add: scatter_inplace_def zeros_def)

lemma scatter_cases:
  "scatter_inplace (zeros n) parcel 1 = Inl ScatterIndexOutOfBounds \<or>
   scatter_inplace (zeros n) parcel 1 = Inr (map (\<lambda>v. if int v \<in> set parcel then 1 else 0) [0..<n])"
proof (cases "\<exists>i\<in>set parcel. i < 0 \<or> int n \<le> i")
  case True
  then show ?thesis by (simp add: scatter_out_of_range)
next
  case False
  then have "\<forall>i\<in>set parcel. 0 \<le> i \<and> i < int n" by auto
  then show ?thesis by (simp add: scatter_in_range)
qed

lemma scatter_parcels_in_range:
  assumes "in_range n ps"
  shows "scatter_parcels n ps =
           Inr (map (\<lambda>parcel. map (\<lambda>v. if int v \<in> set parcel then 1 else 0) [0..<n]) ps)"
  using assms
proof (induction ps)
  case Nil
  then show ?case by simp
next
  case (Cons parcel rest)
  from Cons.prems have here: "\<forall>i\<in>set parcel. 0 \<le> i \<and> i < int n"
    and there: "in_range n rest"
    by (simp_all add: in_range_def)
  show ?case
    by (simp add: scatter_in_range [OF here] Cons.IH [OF there])
qed

lemma scatter_parcels_out_of_range:
  assumes "\<not> in_range n ps"
  shows "scatter_parcels n ps = Inl ScatterIndexOutOfBounds"
  using assms
proof (induction ps)
  case Nil
  then show ?case by (simp add: in_range_def)
next
  case (Cons parcel rest)
  show ?case
  proof (cases "\<exists>i\<in>set parcel. i < 0 \<or> int n \<le> i")
    case True
    then show ?thesis by (simp add: scatter_out_of_range)
  next
    case False
    then have here: "\<forall>i\<in>set parcel. 0 \<le> i \<and> i < int n" by auto
    with Cons.prems have "\<not> in_range n rest"
      by (auto simp: in_range_def)
    then have "scatter_parcels n rest = Inl ScatterIndexOutOfBounds"
      by (rule Cons.IH)
    then show ?thesis
      by (simp add: scatter_in_range [OF here])
  qed
qed

lemma parcel_mask_in_range:
  assumes "in_range n ps" and "ps \<noteq> []"
  shows "build_parcel_mask n ps =
           Inr \<lparr>nrows = n, ncols = length ps,
                cell = (\<lambda>v p. map (\<lambda>parcel. map (\<lambda>v. if int v \<in> set parcel then 1 else 0) [0..<n])
                                 ps ! p ! v)\<rparr>"
proof -
  obtain parcel rest where split: "ps = parcel # rest"
    using assms(2) by (cases ps) auto
  show ?thesis
    unfolding build_parcel_mask_def scatter_parcels_in_range [OF assms(1)]
    by (simp add: stack_def permute_1_0_def split)
qed

lemma parcel_mask_empty: "build_parcel_mask n [] = Inl StackEmptyList"
  by (simp add: build_parcel_mask_def stack_def)

lemma parcel_mask_cell:
  assumes "in_range n ps" and "build_parcel_mask n ps = Inr m"
    and "v < n" and "p < length ps"
  shows "cell m v p = (if int v \<in> set (ps ! p) then 1 else 0)"
proof -
  have "ps \<noteq> []"
    using assms(4) by auto
  from parcel_mask_in_range [OF assms(1) this] assms(2)
  have "m = \<lparr>nrows = n, ncols = length ps,
              cell = (\<lambda>v p. map (\<lambda>parcel. map (\<lambda>v. if int v \<in> set parcel then 1 else 0) [0..<n])
                               ps ! p ! v)\<rparr>"
    by simp
  then show ?thesis
    using assms(3,4) by simp
qed

lemma parcel_mask_shape:
  assumes "build_parcel_mask n ps = Inr m"
  shows "nrows m = n \<and> ncols m = length ps \<and> in_range n ps \<and> ps \<noteq> []"
proof -
  have r: "in_range n ps"
  proof (rule ccontr)
    assume "\<not> in_range n ps"
    then have "scatter_parcels n ps = Inl ScatterIndexOutOfBounds"
      by (rule scatter_parcels_out_of_range)
    with assms show False by (simp add: build_parcel_mask_def)
  qed
  have ne: "ps \<noteq> []"
    using assms by (auto simp: parcel_mask_empty)
  have "build_parcel_mask n ps =
          Inr \<lparr>nrows = n, ncols = length ps,
               cell = (\<lambda>v p. map (\<lambda>parcel. map (\<lambda>v. if int v \<in> set parcel then 1 else 0) [0..<n])
                                ps ! p ! v)\<rparr>"
    by (rule parcel_mask_in_range [OF r ne])
  with assms have "m = \<lparr>nrows = n, ncols = length ps,
               cell = (\<lambda>v p. map (\<lambda>parcel. map (\<lambda>v. if int v \<in> set parcel then 1 else 0) [0..<n])
                                ps ! p ! v)\<rparr>"
    by simp
  then have "nrows m = n" and "ncols m = length ps"
    by simp_all
  with r ne show ?thesis by simp
qed


lemma disjoint_parcels_nth:
  assumes "disjoint_parcels ps" and "p < length ps" and "q < length ps" and "p \<noteq> q"
  shows "set (ps ! p) \<inter> set (ps ! q) = {}"
  using assms
proof (induction ps arbitrary: p q)
  case Nil
  then show ?case by simp
next
  case (Cons parcel rest)
  from Cons.prems(1) have head: "\<forall>other\<in>set rest. set parcel \<inter> set other = {}"
    and tail: "disjoint_parcels rest"
    by simp_all
  show ?case
  proof (cases p)
    case 0
    with Cons.prems obtain q' where q: "q = Suc q'" "q' < length rest"
      by (cases q) auto
    then have "rest ! q' \<in> set rest" by simp
    with head 0 q show ?thesis by simp
  next
    case (Suc p')
    show ?thesis
    proof (cases q)
      case 0
      from Suc Cons.prems have "rest ! p' \<in> set rest" by simp
      with head have "set parcel \<inter> set (rest ! p') = {}" by blast
      with 0 Suc show ?thesis by (simp add: Int_commute)
    next
      case (Suc q')
      with \<open>p = Suc p'\<close> Cons.prems Cons.IH [OF tail, of p' q'] show ?thesis by simp
    qed
  qed
qed

lemma indicator_sum_card:
  assumes "\<forall>i\<in>S. 0 \<le> i \<and> i < int n"
  shows "sum_list (map (\<lambda>v. if int v \<in> S then (1::real) else 0) [0..<n]) = real (card S)"
proof -
  have "sum_list (map (\<lambda>v. if int v \<in> S then (1::real) else 0) [0..<n]) =
          (\<Sum>v\<in>{0..<n}. if int v \<in> S then 1 else 0)"
    by (simp add: interv_sum_list_conv_sum_set_nat)
  also have "\<dots> = real (card {v \<in> {0..<n}. int v \<in> S})"
    by (simp add: sum.If_cases Int_def)
  also have "card {v \<in> {0..<n}. int v \<in> S} = card S"
  proof (rule bij_betw_same_card [of int])
    show "bij_betw int {v \<in> {0..<n}. int v \<in> S} S"
      unfolding bij_betw_def
    proof
      show "inj_on int {v \<in> {0..<n}. int v \<in> S}" by (simp add: inj_on_def)
    next
      show "int ` {v \<in> {0..<n}. int v \<in> S} = S"
      proof
        show "int ` {v \<in> {0..<n}. int v \<in> S} \<subseteq> S" by auto
      next
        show "S \<subseteq> int ` {v \<in> {0..<n}. int v \<in> S}"
        proof
          fix i
          assume i: "i \<in> S"
          with assms have "0 \<le> i" and "i < int n" by auto
          then have "nat i \<in> {v \<in> {0..<n}. int v \<in> S}" using i by auto
          moreover have "i = int (nat i)" using \<open>0 \<le> i\<close> by simp
          ultimately show "i \<in> int ` {v \<in> {0..<n}. int v \<in> S}" by (rule rev_image_eqI)
        qed
      qed
    qed
  qed
  finally show ?thesis .
qed

text \<open>
  C5. A parcel list holding an index outside \<open>[0, num_hemi_voxels)\<close> makes the
  construction of the ParcelMask raise, and with it the constructor of the model: no
  model object exists on which a training step could run.
\<close>

theorem C5_out_of_range_index_fails_at_build:
  assumes "parcel \<in> set (parcels ds)" and "i \<in> set parcel"
    and "i < 0 \<or> int (num_hemi_voxels ds) \<le> i"
  shows "build_parcel_mask (num_hemi_voxels ds) (parcels ds) = Inl ScatterIndexOutOfBounds \<and>
         brain_encoder_init d_model w b ds = Inl ScatterIndexOutOfBounds"
proof -
  have "\<not> in_range (num_hemi_voxels ds) (parcels ds)"
  proof
    assume "in_range (num_hemi_voxels ds) (parcels ds)"
    with assms(1,2) have "0 \<le> i \<and> i < int (num_hemi_voxels ds)"
      unfolding in_range_def by blast
    with assms(3) show False by simp
  qed
  then have "scatter_parcels (num_hemi_voxels ds) (parcels ds) = Inl ScatterIndexOutOfBounds"
    by (rule scatter_parcels_out_of_range)
  then have "build_parcel_mask (num_hemi_voxels ds) (parcels ds) = Inl ScatterIndexOutOfBounds"
    by (simp add: build_parcel_mask_def)
  then show ?thesis
    by (simp add: brain_encoder_init_def)
qed

theorem C5_witness:
  "build_parcel_mask 6 [[0, 1], [2, 7]] = Inl ScatterIndexOutOfBounds \<and>
   brain_encoder_init 4 (\<lambda>v h. 0) (\<lambda>v. 0)
     \<lparr>parcels = [[0, 1], [2, 7]], mask = [], labels = [], num_hemi_voxels = 6,
      num_parcels = 2, max_parcel_size = 2\<rparr> = Inl ScatterIndexOutOfBounds"
  using C5_out_of_range_index_fails_at_build
    [of "[2, 7]"
        "\<lparr>parcels = [[0, 1], [2, 7]], mask = [], labels = [], num_hemi_voxels = 6,
          num_parcels = 2, max_parcel_size = 2\<rparr>" 7 4 "\<lambda>v h. 0" "\<lambda>v. 0"]
  by simp

text \<open>
  C10. Every entry of a constructed ParcelMask is 0 or 1, whatever indices are repeated
  within a parcel or shared between parcels: the construction assigns 1, it does not
  count. A non-empty parcel list with in-range indices does construct a mask, of shape
  \<open>(num_voxels, P)\<close>.
\<close>

theorem C10_mask_entries_are_zero_or_one:
  "(\<forall>m. build_parcel_mask n ps = Inr m \<longrightarrow>
        (\<forall>v<nrows m. \<forall>p<ncols m. cell m v p = 0 \<or> cell m v p = 1)) \<and>
   (in_range n ps \<and> ps \<noteq> [] \<longrightarrow>
        (\<exists>m. build_parcel_mask n ps = Inr m \<and> nrows m = n \<and> ncols m = length ps))"
proof (intro conjI allI impI)
  fix m v p
  assume built: "build_parcel_mask n ps = Inr m" and v: "v < nrows m" and p: "p < ncols m"
  from parcel_mask_shape [OF built]
  have shape: "nrows m = n" "ncols m = length ps" and r: "in_range n ps"
    by simp_all
  have "cell m v p = (if int v \<in> set (ps ! p) then 1 else 0)"
    using r built v p shape by (simp add: parcel_mask_cell)
  then show "cell m v p = 0 \<or> cell m v p = 1"
    by simp
next
  assume "in_range n ps \<and> ps \<noteq> []"
  then show "\<exists>m. build_parcel_mask n ps = Inr m \<and> nrows m = n \<and> ncols m = length ps"
    by (simp add: parcel_mask_in_range)
qed

theorem C10_witness:
  "case build_parcel_mask 3 [[0, 0, 1], [1, 2]] of
     Inl e \<Rightarrow> False
   | Inr m \<Rightarrow> nrows m = 3 \<and> ncols m = 2 \<and> cell m 0 0 = 1 \<and> cell m 1 0 = 1 \<and>
              cell m 1 1 = 1 \<and> cell m 0 1 = 0 \<and> (cell m 2 0 = 0 \<or> cell m 2 0 = 1)"
proof -
  have r: "in_range 3 [[0, 0, 1], [1, 2]] \<and> [[0, 0, 1], [1, 2]] \<noteq> ([] :: int list list)"
    by (simp add: in_range_def)
  from C10_mask_entries_are_zero_or_one [of 3 "[[0, 0, 1], [1, 2]]"] r
  obtain m where m: "build_parcel_mask 3 [[0, 0, 1], [1, 2]] = Inr m"
      "nrows m = 3" "ncols m = 2"
    and bits: "\<forall>v<nrows m. \<forall>p<ncols m. cell m v p = 0 \<or> cell m v p = 1"
    by auto
  have c: "\<And>v p. v < 3 \<Longrightarrow> p < 2 \<Longrightarrow>
             cell m v p = (if int v \<in> set ([[0, 0, 1], [1, 2]] ! p) then 1 else 0)"
    using r m(1) by (simp add: parcel_mask_cell)
  have "cell m 0 0 = 1" "cell m 1 0 = 1" "cell m 1 1 = 1" "cell m 0 1 = 0"
    using c [of 0 0] c [of 1 0] c [of 1 1] c [of 0 1] by simp_all
  moreover have "cell m 2 0 = 0 \<or> cell m 2 0 = 1"
    using bits m(2,3) by simp
  ultimately show ?thesis
    using m by simp
qed

text \<open>
  C4, as amended: for a non-empty parcel list whose index sets are pairwise disjoint and
  in range, the construction returns a matrix of shape \<open>(num_voxels, P)\<close> whose column
  \<open>p\<close> holds 1 exactly at the indices of parcel \<open>p\<close> and 0 elsewhere; the sum of
  column \<open>p\<close> is the number of voxels of parcel \<open>p\<close> (the length of the parcel when
  its indices are distinct), and a listed index holds 1 in the column of its parcel and
  0 in every other column. On the empty parcel list \<open>torch.stack\<close> raises and no
  matrix is produced.
\<close>

theorem C4_parcel_mask_columns:
  assumes "ps \<noteq> []" and "in_range n ps" and "disjoint_parcels ps"
  shows "\<exists>m. build_parcel_mask n ps = Inr m \<and> nrows m = n \<and> ncols m = length ps \<and>
           (\<forall>v<n. \<forall>p<length ps. cell m v p = (if int v \<in> set (ps ! p) then 1 else 0)) \<and>
           (\<forall>p<length ps. sum_list (map (\<lambda>v. cell m v p) [0..<n]) = real (card (set (ps ! p)))) \<and>
           (\<forall>p<length ps. distinct (ps ! p) \<longrightarrow>
                sum_list (map (\<lambda>v. cell m v p) [0..<n]) = real (length (ps ! p))) \<and>
           (\<forall>p<length ps. \<forall>i\<in>set (ps ! p). \<forall>q<length ps.
                cell m (nat i) q = (if q = p then 1 else 0))"
proof -
  obtain m where built: "build_parcel_mask n ps = Inr m"
    using parcel_mask_in_range [OF assms(2) assms(1)] by simp
  have shape: "nrows m = n" "ncols m = length ps"
    using parcel_mask_shape [OF built] by simp_all
  have entry: "cell m v p = (if int v \<in> set (ps ! p) then 1 else 0)"
    if "v < n" and "p < length ps" for v p
    using parcel_mask_cell [OF assms(2) built that] .
  have colsum: "sum_list (map (\<lambda>v. cell m v p) [0..<n]) = real (card (set (ps ! p)))"
    if p: "p < length ps" for p
  proof -
    have inside: "\<forall>i\<in>set (ps ! p). 0 \<le> i \<and> i < int n"
      using assms(2) p by (auto simp: in_range_def)
    have same: "map (\<lambda>v. cell m v p) [0..<n] =
            map (\<lambda>v. if int v \<in> set (ps ! p) then 1 else 0) [0..<n]"
      using entry p by simp
    have "sum_list (map (\<lambda>v. cell m v p) [0..<n]) =
            sum_list (map (\<lambda>v. if int v \<in> set (ps ! p) then (1::real) else 0) [0..<n])"
      by (rule arg_cong [OF same])
    also have "\<dots> = real (card (set (ps ! p)))"
      by (rule indicator_sum_card [OF inside])
    finally show ?thesis .
  qed
  have owner: "cell m (nat i) q = (if q = p then 1 else 0)"
    if p: "p < length ps" and i: "i \<in> set (ps ! p)" and q: "q < length ps" for p i q
  proof -
    have bounds: "0 \<le> i" "i < int n"
      using assms(2) p i by (auto simp: in_range_def)
    then have v: "nat i < n" and rt: "int (nat i) = i" by simp_all
    show ?thesis
    proof (cases "q = p")
      case True
      then show ?thesis using entry [OF v p] i rt by simp
    next
      case False
      then have "set (ps ! p) \<inter> set (ps ! q) = {}"
        using disjoint_parcels_nth [OF assms(3) p q] by simp
      with i have "i \<notin> set (ps ! q)" by blast
      then show ?thesis using entry [OF v q] rt False by simp
    qed
  qed
  show ?thesis
    using built shape entry colsum owner by (auto simp: distinct_card)
qed

theorem C4_witness:
  "case build_parcel_mask 6 [[0, 1], [2, 3, 4], [5]] of
     Inl e \<Rightarrow> False
   | Inr m \<Rightarrow> nrows m = 6 \<and> ncols m = 3 \<and> cell m 3 1 = 1 \<and> cell m 3 0 = 0 \<and>
              cell m 3 2 = 0 \<and> sum_list (map (\<lambda>v. cell m v 1) [0..<6]) = 3"
proof -
  have ne: "[[0, 1], [2, 3, 4], [5]] \<noteq> ([] :: int list list)"
    and r: "in_range 6 [[0, 1], [2, 3, 4], [5]]"
    and d: "disjoint_parcels [[0, 1], [2, 3, 4], [5]]"
    by (simp_all add: in_range_def)
  from C4_parcel_mask_columns [OF ne r d]
  obtain m where m: "build_parcel_mask 6 [[0, 1], [2, 3, 4], [5]] = Inr m"
      "nrows m = 6" "ncols m = 3"
    and entry: "\<forall>v<6. \<forall>p<length [[0, 1], [2, 3, 4], [5::int]].
                  cell m v p = (if int v \<in> set ([[0, 1], [2, 3, 4], [5]] ! p) then 1 else 0)"
    and colsum: "\<forall>p<length [[0, 1], [2, 3, 4], [5::int]].
                  sum_list (map (\<lambda>v. cell m v p) [0..<6]) =
                  real (card (set ([[0, 1], [2, 3, 4], [5::int]] ! p)))"
    by auto
  have "cell m 3 1 = 1" "cell m 3 0 = 0" "cell m 3 2 = 0"
    using entry by simp_all
  moreover have "sum_list (map (\<lambda>v. cell m v 1) [0..<6]) = 3"
  proof -
    have "sum_list (map (\<lambda>v. cell m v 1) [0..<6]) =
            real (card (set ([[0, 1], [2, 3, 4], [5::int]] ! 1)))"
      using colsum by simp
    then show ?thesis by simp
  qed
  ultimately show ?thesis
    using m by simp
qed

theorem C4_counterexample:
  "disjoint_parcels [] \<and> in_range 6 [] \<and> build_parcel_mask 6 [] = Inl StackEmptyList"
  by (simp add: in_range_def parcel_mask_empty)


section \<open>Properties of the ReadoutHead\<close>







section \<open>Properties of the UnwrapReconstructor\<close>

















section \<open>Properties of the training step\<close>

lemma train_step_not_finite:
  assumes "\<not> isfinite (loss_value_of env (model st) True nvv batch)"
  shows "train_step env ds mp max_norm epoch len_dl nvv batch_idx batch st =
           SystemExit 1
             (st\<lparr>calls := calls st @
                    [ModelForward, PrintLoss (loss_value_of env (model st) True nvv batch),
                     PrintLoss (loss_value_of env (model st) True nvv batch)]\<rparr>)"
proof -
  obtain imgs targets where b: "batch = (imgs, targets)"
    by (cases batch) auto
  show ?thesis
    using assms by (simp add: train_step_def b loss_value_of_def Let_def)
qed

lemma train_step_finite:
  assumes "isfinite (loss_value_of env (model st) True nvv batch)"
  shows "\<not> exited (train_step env ds mp max_norm epoch len_dl nvv batch_idx batch st) \<and>
         model (state_of (train_step env ds mp max_norm epoch len_dl nvv batch_idx batch st)) =
           optimizer_step env (model st)
             (if positive max_norm
              then clip_grad_norm env (backward env (model st) (fst batch) (snd batch) nvv) max_norm
              else backward env (model st) (fst batch) (snd batch) nvv) \<and>
         calls (state_of (train_step env ds mp max_norm epoch len_dl nvv batch_idx batch st)) =
           calls st @ [ModelForward, ZeroGrad, Backward] @
           (if positive max_norm then [ClipGradNorm] else []) @ [OptimizerStep] \<and>
         meters (state_of (train_step env ds mp max_norm epoch len_dl nvv batch_idx batch st)) =
           meters st @
           [(''loss'', loss_value_of env (model st) True nvv batch),
            (''loss_labels'', loss_value_of env (model st) True nvv batch),
            (''lr'', learning_rate env
               (model (state_of
                  (train_step env ds mp max_norm epoch len_dl nvv batch_idx batch st))))]"
proof -
  obtain imgs targets where b: "batch = (imgs, targets)"
    by (cases batch) auto
  show ?thesis
    using assms
    by (simp add: train_step_def b loss_value_of_def Let_def split: sum.splits)
qed

lemma train_loop_exit_only_on_non_finite:
  "exited (train_loop env ds mp max_norm epoch len_dl nvv batch_idx batches st) \<Longrightarrow>
     \<exists>L. \<not> isfinite L \<and>
         last (calls (state_of (train_loop env ds mp max_norm epoch len_dl nvv batch_idx batches st)))
           = PrintLoss L"
proof (induction batches arbitrary: st batch_idx)
  case Nil
  then show ?case by simp
next
  case (Cons batch rest)
  show ?case
  proof (cases "isfinite (loss_value_of env (model st) True nvv batch)")
    case False
    from train_step_not_finite [OF False, of ds mp max_norm epoch len_dl batch_idx]
    show ?thesis
      using False by auto
  next
    case True
    from train_step_finite [OF True, of ds mp max_norm epoch len_dl batch_idx]
    have ne: "\<not> exited (train_step env ds mp max_norm epoch len_dl nvv batch_idx batch st)"
      by simp
    show ?thesis
    proof (cases "train_step env ds mp max_norm epoch len_dl nvv batch_idx batch st")
      case (Completed st')
      with Cons.prems have "exited (train_loop env ds mp max_norm epoch len_dl nvv (Suc batch_idx) rest st')"
        by simp
      from Cons.IH [OF this] show ?thesis
        using Completed by simp
    next
      case (SystemExit code st')
      with ne show ?thesis by simp
    next
      case (Raised e st')
      with Cons.prems show ?thesis by simp
    qed
  qed
qed

lemma fdiv_doubled:
  "fdiv (fadd raw raw) (2 * n) = fdiv raw n"
  by (cases raw) auto

lemma train_loop_losses:
  "\<exists>ms. length ms \<le> length batches \<and>
     map snd (filter (\<lambda>kv. fst kv = ''loss'')
        (meters (state_of (train_loop env ds mp max_norm epoch len_dl nvv batch_idx batches st)))) =
     map snd (filter (\<lambda>kv. fst kv = ''loss'') (meters st)) @
     map (\<lambda>(m, b). loss_value_of env m True nvv b) (zip ms batches)"
proof (induction batches arbitrary: st batch_idx)
  case Nil
  show ?case by simp
next
  case (Cons batch rest)
  let ?L = "loss_value_of env (model st) True nvv batch"
  let ?step = "train_step env ds mp max_norm epoch len_dl nvv batch_idx batch st"
  show ?case
  proof (cases "isfinite ?L")
    case False
    from train_step_not_finite [OF False, of ds mp max_norm epoch len_dl batch_idx]
    have "meters (state_of (train_loop env ds mp max_norm epoch len_dl nvv batch_idx (batch # rest) st))
            = meters st"
      by simp
    then show ?thesis
      by (intro exI [of _ "[]"]) simp
  next
    case True
    from train_step_finite [OF True, of ds mp max_norm epoch len_dl batch_idx]
    have ne: "\<not> exited ?step"
      and mt: "map snd (filter (\<lambda>kv. fst kv = ''loss'') (meters (state_of ?step))) =
               map snd (filter (\<lambda>kv. fst kv = ''loss'') (meters st)) @ [?L]"
      by simp_all
    show ?thesis
    proof (cases ?step)
      case (Completed st')
      from Cons.IH [of "Suc batch_idx" st'] obtain ms where
        ms: "length ms \<le> length rest"
        "map snd (filter (\<lambda>kv. fst kv = ''loss'')
           (meters (state_of (train_loop env ds mp max_norm epoch len_dl nvv (Suc batch_idx) rest st')))) =
         map snd (filter (\<lambda>kv. fst kv = ''loss'') (meters st')) @
         map (\<lambda>(m, b). loss_value_of env m True nvv b) (zip ms rest)"
        by blast
      from mt Completed have "map snd (filter (\<lambda>kv. fst kv = ''loss'') (meters st')) =
               map snd (filter (\<lambda>kv. fst kv = ''loss'') (meters st)) @ [?L]"
        by simp
      with ms Completed show ?thesis
        by (intro exI [of _ "model st # ms"]) simp
    next
      case (SystemExit code st')
      with ne show ?thesis by simp
    next
      case (Raised e st')
      with mt show ?thesis
        by (intro exI [of _ "[model st]"]) simp
    qed
  qed
qed

lemma eval_loop_meters:
  "eval_loop env ds mp m nvv batches st = Inr st' \<Longrightarrow>
     eval_meters st' = eval_meters st @
       map (\<lambda>b. (''loss_labels'', loss_value_of env m False nvv b)) batches"
proof (induction batches arbitrary: st)
  case Nil
  then show ?case by simp
next
  case (Cons batch rest)
  obtain imgs targets where b: "batch = (imgs, targets)"
    by (cases batch) auto
  from Cons.prems obtain st1 where
    s1: "eval_step env ds mp m nvv batch st = Inr st1"
    and l: "eval_loop env ds mp m nvv rest st1 = Inr st'"
    by (auto split: sum.splits)
  from s1 have "eval_meters st1 = eval_meters st @ [(''loss_labels'', loss_value_of env m False nvv batch)]"
    by (auto simp: eval_step_def b loss_value_of_def Let_def split: sum.splits)
  with Cons.IH [OF l] show ?case
    by simp
qed

section \<open>Claims about the training loop\<close>

text \<open>
  C3. A training step whose loss value is not finite prints the value twice and exits the
  process with status 1: the loop stops at this batch, the model state is the one before
  the step, and none of \<open>zero_grad\<close>, \<open>backward\<close>, \<open>clip_grad_norm_\<close> and
  \<open>optimizer.step\<close> is called in it. A step whose loss value is finite never exits,
  and a run of the loop that exits did so on printing a loss value that is not finite.
\<close>

theorem C3_non_finite_loss_terminates_before_update:
  "(\<not> isfinite (loss_value_of env (model st) True nvv batch) \<longrightarrow>
      train_step env ds mp max_norm epoch len_dl nvv batch_idx batch st =
        SystemExit 1
          (st\<lparr>calls := calls st @
                 [ModelForward, PrintLoss (loss_value_of env (model st) True nvv batch),
                  PrintLoss (loss_value_of env (model st) True nvv batch)]\<rparr>) \<and>
      train_loop env ds mp max_norm epoch len_dl nvv batch_idx (batch # rest) st =
        train_step env ds mp max_norm epoch len_dl nvv batch_idx batch st \<and>
      model (state_of (train_step env ds mp max_norm epoch len_dl nvv batch_idx batch st)) =
        model st \<and>
      set (drop (length (calls st))
             (calls (state_of (train_step env ds mp max_norm epoch len_dl nvv batch_idx batch st))))
        \<inter> {ZeroGrad, Backward, ClipGradNorm, OptimizerStep} = {}) \<and>
   (isfinite (loss_value_of env (model st) True nvv batch) \<longrightarrow>
      \<not> exited (train_step env ds mp max_norm epoch len_dl nvv batch_idx batch st)) \<and>
   (exited (train_loop env ds mp max_norm epoch len_dl nvv batch_idx batches st) \<longrightarrow>
      (\<exists>L. \<not> isfinite L \<and>
           last (calls (state_of
                   (train_loop env ds mp max_norm epoch len_dl nvv batch_idx batches st)))
             = PrintLoss L))"
proof (intro conjI impI)
  assume nf: "\<not> isfinite (loss_value_of env (model st) True nvv batch)"
  note eq = train_step_not_finite [OF nf, of ds mp max_norm epoch len_dl batch_idx]
  show "train_step env ds mp max_norm epoch len_dl nvv batch_idx batch st =
        SystemExit 1
          (st\<lparr>calls := calls st @
                 [ModelForward, PrintLoss (loss_value_of env (model st) True nvv batch),
                  PrintLoss (loss_value_of env (model st) True nvv batch)]\<rparr>)"
    by (rule eq)
  show "train_loop env ds mp max_norm epoch len_dl nvv batch_idx (batch # rest) st =
        train_step env ds mp max_norm epoch len_dl nvv batch_idx batch st"
    by (simp add: eq)
  show "model (state_of (train_step env ds mp max_norm epoch len_dl nvv batch_idx batch st)) =
        model st"
    by (simp add: eq)
  show "set (drop (length (calls st))
             (calls (state_of (train_step env ds mp max_norm epoch len_dl nvv batch_idx batch st))))
        \<inter> {ZeroGrad, Backward, ClipGradNorm, OptimizerStep} = {}"
    by (simp add: eq)
next
  assume "isfinite (loss_value_of env (model st) True nvv batch)"
  from train_step_finite [OF this, of ds mp max_norm epoch len_dl batch_idx]
  show "\<not> exited (train_step env ds mp max_norm epoch len_dl nvv batch_idx batch st)"
    by simp
next
  assume "exited (train_loop env ds mp max_norm epoch len_dl nvv batch_idx batches st)"
  then show "\<exists>L. \<not> isfinite L \<and>
           last (calls (state_of
                   (train_loop env ds mp max_norm epoch len_dl nvv batch_idx batches st)))
             = PrintLoss L"
    by (rule train_loop_exit_only_on_non_finite)
qed

theorem C3_witness:
  "\<not> isfinite (loss_value_of 
     \<lparr>forward = \<lambda>(m::nat) tr (x::unit). \<lparr>dim0 = 1, dim1 = 2, dim2 = 2,
                  cell3 = \<lambda>b p s. int m + int p + int s\<rparr>,
       criterion = \<lambda>(outputs::int tensor3) targets. NaN,
       backward = \<lambda>m x targets n. (5::int), clip_grad_norm = \<lambda>g mx. 1,
       optimizer_step = \<lambda>m g. m + nat g, learning_rate = \<lambda>m. Fin (1 / 10),
       corrcoef = \<lambda>xs zs. Fin (real_of_int (sum_list (map2 (*) xs zs)))\<rparr> 0 True 3 ((), \<lparr>dim0 = 1, dim1 = 2, dim2 = 2, cell3 = \<lambda>b p s. 1 + int s\<rparr>)) \<and>
   train_step 
     \<lparr>forward = \<lambda>(m::nat) tr (x::unit). \<lparr>dim0 = 1, dim1 = 2, dim2 = 2,
                  cell3 = \<lambda>b p s. int m + int p + int s\<rparr>,
       criterion = \<lambda>(outputs::int tensor3) targets. NaN,
       backward = \<lambda>m x targets n. (5::int), clip_grad_norm = \<lambda>g mx. 1,
       optimizer_step = \<lambda>m g. m + nat g, learning_rate = \<lambda>m. Fin (1 / 10),
       corrcoef = \<lambda>xs zs. Fin (real_of_int (sum_list (map2 (*) xs zs)))\<rparr> 
     \<lparr>parcels = [[0, 2], [3]], mask = [[True, True], [True, False]],
       labels = [[1], [1], [0], [1]], num_hemi_voxels = 4, num_parcels = 2,
       max_parcel_size = 2\<rparr> 1 (Fin 0) 2 20 3 0 ((), \<lparr>dim0 = 1, dim1 = 2, dim2 = 2, cell3 = \<lambda>b p s. 1 + int s\<rparr>) 
     \<lparr>model = 0, running_loss = Fin 0, running_corr = Fin 0, meters = [], wandb = [],
       calls = []\<rparr> =
     SystemExit 1
       \<lparr>model = 0, running_loss = Fin 0, running_corr = Fin 0, meters = [], wandb = [],
        calls = [ModelForward, PrintLoss NaN, PrintLoss NaN]\<rparr> \<and>
   isfinite (loss_value_of 
     \<lparr>forward = \<lambda>(m::nat) tr (x::unit). \<lparr>dim0 = 1, dim1 = 2, dim2 = 2,
                  cell3 = \<lambda>b p s. int m + int p + int s\<rparr>,
       criterion = \<lambda>(outputs::int tensor3) targets. Fin 6,
       backward = \<lambda>m x targets n. (5::int), clip_grad_norm = \<lambda>g mx. 1,
       optimizer_step = \<lambda>m g. m + nat g, learning_rate = \<lambda>m. Fin (1 / 10),
       corrcoef = \<lambda>xs zs. Fin (real_of_int (sum_list (map2 (*) xs zs)))\<rparr> 0 True 3 ((), \<lparr>dim0 = 1, dim1 = 2, dim2 = 2, cell3 = \<lambda>b p s. 1 + int s\<rparr>)) \<and>
   \<not> exited (train_step 
     \<lparr>forward = \<lambda>(m::nat) tr (x::unit). \<lparr>dim0 = 1, dim1 = 2, dim2 = 2,
                  cell3 = \<lambda>b p s. int m + int p + int s\<rparr>,
       criterion = \<lambda>(outputs::int tensor3) targets. Fin 6,
       backward = \<lambda>m x targets n. (5::int), clip_grad_norm = \<lambda>g mx. 1,
       optimizer_step = \<lambda>m g. m + nat g, learning_rate = \<lambda>m. Fin (1 / 10),
       corrcoef = \<lambda>xs zs. Fin (real_of_int (sum_list (map2 (*) xs zs)))\<rparr> 
     \<lparr>parcels = [[0, 2], [3]], mask = [[True, True], [True, False]],
       labels = [[1], [1], [0], [1]], num_hemi_voxels = 4, num_parcels = 2,
       max_parcel_size = 2\<rparr> 1 (Fin 0) 2 20 3 0 ((), \<lparr>dim0 = 1, dim1 = 2, dim2 = 2, cell3 = \<lambda>b p s. 1 + int s\<rparr>) 
     \<lparr>model = 0, running_loss = Fin 0, running_corr = Fin 0, meters = [], wandb = [],
       calls = []\<rparr>)"
proof -
  let ?envN = "\<lparr>forward = \<lambda>(m::nat) tr (x::unit). \<lparr>dim0 = 1, dim1 = 2, dim2 = 2,
                  cell3 = \<lambda>b p s. int m + int p + int s\<rparr>,
       criterion = \<lambda>(outputs::int tensor3) targets. NaN,
       backward = \<lambda>m x targets n. (5::int), clip_grad_norm = \<lambda>g mx. 1,
       optimizer_step = \<lambda>m g. m + nat g, learning_rate = \<lambda>m. Fin (1 / 10),
       corrcoef = \<lambda>xs zs. Fin (real_of_int (sum_list (map2 (*) xs zs)))\<rparr>"
  let ?envF = "\<lparr>forward = \<lambda>(m::nat) tr (x::unit). \<lparr>dim0 = 1, dim1 = 2, dim2 = 2,
                  cell3 = \<lambda>b p s. int m + int p + int s\<rparr>,
       criterion = \<lambda>(outputs::int tensor3) targets. Fin 6,
       backward = \<lambda>m x targets n. (5::int), clip_grad_norm = \<lambda>g mx. 1,
       optimizer_step = \<lambda>m g. m + nat g, learning_rate = \<lambda>m. Fin (1 / 10),
       corrcoef = \<lambda>xs zs. Fin (real_of_int (sum_list (map2 (*) xs zs)))\<rparr>"
  let ?ds = "\<lparr>parcels = [[0, 2], [3]], mask = [[True, True], [True, False]],
       labels = [[1], [1], [0], [1]], num_hemi_voxels = 4, num_parcels = 2,
       max_parcel_size = 2\<rparr>"
  let ?T = "\<lparr>dim0 = 1, dim1 = 2, dim2 = 2, cell3 = \<lambda>b p s. 1 + int s\<rparr>"
  let ?st = "\<lparr>model = 0, running_loss = Fin 0, running_corr = Fin 0, meters = [], wandb = [],
       calls = []\<rparr>"
  from C3_non_finite_loss_terminates_before_update
         [of ?envN ?st 3 "((), ?T)" ?ds 1 "Fin 0" 2 20 0 "[]" "[]"]
       C3_non_finite_loss_terminates_before_update
         [of ?envF ?st 3 "((), ?T)" ?ds 1 "Fin 0" 2 20 0 "[]" "[]"]
  show ?thesis
    by (simp add: loss_value_of_def)
qed

text \<open>
  C9. In a training step that reaches the update (finite loss), \<open>clip_grad_norm_\<close> is
  called if and only if \<open>max_norm > 0\<close>, and then the optimizer steps on the clipped
  gradient; otherwise (zero, negative or NaN threshold) the optimizer steps on the
  gradient that \<open>backward\<close> left, unmodified.
\<close>

theorem C9_clipping_iff_positive_max_norm:
  assumes "isfinite (loss_value_of env (model st) True nvv batch)"
  shows "(ClipGradNorm \<in> set (drop (length (calls st))
             (calls (state_of (train_step env ds mp max_norm epoch len_dl nvv batch_idx batch st))))
          \<longleftrightarrow> positive max_norm) \<and>
         (positive max_norm \<longrightarrow>
            model (state_of (train_step env ds mp max_norm epoch len_dl nvv batch_idx batch st)) =
              optimizer_step env (model st)
                (clip_grad_norm env (backward env (model st) (fst batch) (snd batch) nvv)
                   max_norm)) \<and>
         (\<not> positive max_norm \<longrightarrow>
            model (state_of (train_step env ds mp max_norm epoch len_dl nvv batch_idx batch st)) =
              optimizer_step env (model st)
                (backward env (model st) (fst batch) (snd batch) nvv)) \<and>
         (\<forall>r. positive (Fin r) \<longleftrightarrow> 0 < r)"
  using train_step_finite [OF assms, of ds mp max_norm epoch len_dl batch_idx]
  by auto

theorem C9_witness:
  "isfinite (loss_value_of 
     \<lparr>forward = \<lambda>(m::nat) tr (x::unit). \<lparr>dim0 = 1, dim1 = 2, dim2 = 2,
                  cell3 = \<lambda>b p s. int m + int p + int s\<rparr>,
       criterion = \<lambda>(outputs::int tensor3) targets. Fin 6,
       backward = \<lambda>m x targets n. (5::int), clip_grad_norm = \<lambda>g mx. 1,
       optimizer_step = \<lambda>m g. m + nat g, learning_rate = \<lambda>m. Fin (1 / 10),
       corrcoef = \<lambda>xs zs. Fin (real_of_int (sum_list (map2 (*) xs zs)))\<rparr> 0 True 3 ((), \<lparr>dim0 = 1, dim1 = 2, dim2 = 2, cell3 = \<lambda>b p s. 1 + int s\<rparr>)) \<and>
   model (state_of (train_step 
     \<lparr>forward = \<lambda>(m::nat) tr (x::unit). \<lparr>dim0 = 1, dim1 = 2, dim2 = 2,
                  cell3 = \<lambda>b p s. int m + int p + int s\<rparr>,
       criterion = \<lambda>(outputs::int tensor3) targets. Fin 6,
       backward = \<lambda>m x targets n. (5::int), clip_grad_norm = \<lambda>g mx. 1,
       optimizer_step = \<lambda>m g. m + nat g, learning_rate = \<lambda>m. Fin (1 / 10),
       corrcoef = \<lambda>xs zs. Fin (real_of_int (sum_list (map2 (*) xs zs)))\<rparr> 
     \<lparr>parcels = [[0, 2], [3]], mask = [[True, True], [True, False]],
       labels = [[1], [1], [0], [1]], num_hemi_voxels = 4, num_parcels = 2,
       max_parcel_size = 2\<rparr> 1 (Fin (1 / 2)) 2 20 3 0 ((), \<lparr>dim0 = 1, dim1 = 2, dim2 = 2, cell3 = \<lambda>b p s. 1 + int s\<rparr>) 
     \<lparr>model = 0, running_loss = Fin 0, running_corr = Fin 0, meters = [], wandb = [],
       calls = []\<rparr>)) = 1 \<and>
   model (state_of (train_step 
     \<lparr>forward = \<lambda>(m::nat) tr (x::unit). \<lparr>dim0 = 1, dim1 = 2, dim2 = 2,
                  cell3 = \<lambda>b p s. int m + int p + int s\<rparr>,
       criterion = \<lambda>(outputs::int tensor3) targets. Fin 6,
       backward = \<lambda>m x targets n. (5::int), clip_grad_norm = \<lambda>g mx. 1,
       optimizer_step = \<lambda>m g. m + nat g, learning_rate = \<lambda>m. Fin (1 / 10),
       corrcoef = \<lambda>xs zs. Fin (real_of_int (sum_list (map2 (*) xs zs)))\<rparr> 
     \<lparr>parcels = [[0, 2], [3]], mask = [[True, True], [True, False]],
       labels = [[1], [1], [0], [1]], num_hemi_voxels = 4, num_parcels = 2,
       max_parcel_size = 2\<rparr> 1 (Fin 0) 2 20 3 0 ((), \<lparr>dim0 = 1, dim1 = 2, dim2 = 2, cell3 = \<lambda>b p s. 1 + int s\<rparr>) 
     \<lparr>model = 0, running_loss = Fin 0, running_corr = Fin 0, meters = [], wandb = [],
       calls = []\<rparr>)) = 5 \<and>
   model (state_of (train_step 
     \<lparr>forward = \<lambda>(m::nat) tr (x::unit). \<lparr>dim0 = 1, dim1 = 2, dim2 = 2,
                  cell3 = \<lambda>b p s. int m + int p + int s\<rparr>,
       criterion = \<lambda>(outputs::int tensor3) targets. Fin 6,
       backward = \<lambda>m x targets n. (5::int), clip_grad_norm = \<lambda>g mx. 1,
       optimizer_step = \<lambda>m g. m + nat g, learning_rate = \<lambda>m. Fin (1 / 10),
       corrcoef = \<lambda>xs zs. Fin (real_of_int (sum_list (map2 (*) xs zs)))\<rparr> 
     \<lparr>parcels = [[0, 2], [3]], mask = [[True, True], [True, False]],
       labels = [[1], [1], [0], [1]], num_hemi_voxels = 4, num_parcels = 2,
       max_parcel_size = 2\<rparr> 1 (Fin (- 1)) 2 20 3 0 ((), \<lparr>dim0 = 1, dim1 = 2, dim2 = 2, cell3 = \<lambda>b p s. 1 + int s\<rparr>) 
     \<lparr>model = 0, running_loss = Fin 0, running_corr = Fin 0, meters = [], wandb = [],
       calls = []\<rparr>)) = 5"
proof -
  let ?envN = "\<lparr>forward = \<lambda>(m::nat) tr (x::unit). \<lparr>dim0 = 1, dim1 = 2, dim2 = 2,
                  cell3 = \<lambda>b p s. int m + int p + int s\<rparr>,
       criterion = \<lambda>(outputs::int tensor3) targets. NaN,
       backward = \<lambda>m x targets n. (5::int), clip_grad_norm = \<lambda>g mx. 1,
       optimizer_step = \<lambda>m g. m + nat g, learning_rate = \<lambda>m. Fin (1 / 10),
       corrcoef = \<lambda>xs zs. Fin (real_of_int (sum_list (map2 (*) xs zs)))\<rparr>"
  let ?envF = "\<lparr>forward = \<lambda>(m::nat) tr (x::unit). \<lparr>dim0 = 1, dim1 = 2, dim2 = 2,
                  cell3 = \<lambda>b p s. int m + int p + int s\<rparr>,
       criterion = \<lambda>(outputs::int tensor3) targets. Fin 6,
       backward = \<lambda>m x targets n. (5::int), clip_grad_norm = \<lambda>g mx. 1,
       optimizer_step = \<lambda>m g. m + nat g, learning_rate = \<lambda>m. Fin (1 / 10),
       corrcoef = \<lambda>xs zs. Fin (real_of_int (sum_list (map2 (*) xs zs)))\<rparr>"
  let ?ds = "\<lparr>parcels = [[0, 2], [3]], mask = [[True, True], [True, False]],
       labels = [[1], [1], [0], [1]], num_hemi_voxels = 4, num_parcels = 2,
       max_parcel_size = 2\<rparr>"
  let ?T = "\<lparr>dim0 = 1, dim1 = 2, dim2 = 2, cell3 = \<lambda>b p s. 1 + int s\<rparr>"
  let ?st = "\<lparr>model = 0, running_loss = Fin 0, running_corr = Fin 0, meters = [], wandb = [],
       calls = []\<rparr>"
  have fin: "isfinite (loss_value_of ?envF (model ?st) True 3 ((), ?T))"
    by (simp add: loss_value_of_def)
  from C9_clipping_iff_positive_max_norm [OF fin, of ?ds 1 "Fin (1 / 2)" 2 20 0]
       C9_clipping_iff_positive_max_norm [OF fin, of ?ds 1 "Fin 0" 2 20 0]
       C9_clipping_iff_positive_max_norm [OF fin, of ?ds 1 "Fin (- 1)" 2 20 0]
  show ?thesis
    by (simp add: loss_value_of_def)
qed

text \<open>
  C6. The loss of a step is the value of the criterion on the prediction and the target
  divided by the count of valid voxels. A training step with a finite loss sends it to
  the meters \<open>loss\<close> and \<open>loss_labels\<close>, one with a loss that is not finite prints
  it. Over a whole run of \<open>train_one_epoch\<close> every value sent to the meter \<open>loss\<close>
  is the loss of a batch divided by the one count \<open>num_valid_voxels ds\<close>, computed
  before the loop; a run of \<open>evaluate\<close> that returns has sent to \<open>loss_labels\<close>, for
  each batch in order, the loss divided by that same count. The normalised loss does not
  change when the raw value of the criterion and the count are both doubled, and
  doubling the mask rows doubles the count.
\<close>

theorem C6_loss_normalised_by_valid_voxel_count:
  "loss_value_of env m training nvv batch =
     fdiv (criterion env (forward env m training (fst batch)) (snd batch)) nvv \<and>
   (isfinite (loss_value_of env (model st) True nvv batch) \<longrightarrow>
      take 2 (drop (length (meters st))
         (meters (state_of (train_step env ds mp max_norm epoch len_dl nvv batch_idx batch st)))) =
      [(''loss'', loss_value_of env (model st) True nvv batch),
       (''loss_labels'', loss_value_of env (model st) True nvv batch)]) \<and>
   (\<not> isfinite (loss_value_of env (model st) True nvv batch) \<longrightarrow>
      last (calls (state_of (train_step env ds mp max_norm epoch len_dl nvv batch_idx batch st))) =
      PrintLoss (loss_value_of env (model st) True nvv batch)) \<and>
   (\<exists>ms. length ms \<le> length data_loader \<and>
      map snd (filter (\<lambda>kv. fst kv = ''loss'')
        (meters (state_of (train_one_epoch env ds mp max_norm epoch m data_loader)))) =
      map (\<lambda>(m', b). loss_value_of env m' True (num_valid_voxels ds) b) (zip ms data_loader)) \<and>
   (\<forall>res st'. evaluate env ds mp m data_loader = Inr (res, st') \<longrightarrow>
      eval_meters st' =
      map (\<lambda>b. (''loss_labels'', loss_value_of env m False (num_valid_voxels ds) b)) data_loader) \<and>
   loss_value_of
     (env\<lparr>criterion := \<lambda>outputs targets.
            fadd (criterion env outputs targets) (criterion env outputs targets)\<rparr>)
     m training (2 * nvv) batch = loss_value_of env m training nvv batch \<and>
   num_valid_voxels (ds\<lparr>mask := mask ds @ mask ds\<rparr>) = 2 * num_valid_voxels ds"
proof (intro conjI impI allI)
  show "loss_value_of env m training nvv batch =
     fdiv (criterion env (forward env m training (fst batch)) (snd batch)) nvv"
    by (simp add: loss_value_of_def)
next
  assume "isfinite (loss_value_of env (model st) True nvv batch)"
  from train_step_finite [OF this, of ds mp max_norm epoch len_dl batch_idx]
  show "take 2 (drop (length (meters st))
         (meters (state_of (train_step env ds mp max_norm epoch len_dl nvv batch_idx batch st)))) =
      [(''loss'', loss_value_of env (model st) True nvv batch),
       (''loss_labels'', loss_value_of env (model st) True nvv batch)]"
    by simp
next
  assume "\<not> isfinite (loss_value_of env (model st) True nvv batch)"
  from train_step_not_finite [OF this, of ds mp max_norm epoch len_dl batch_idx]
  show "last (calls (state_of (train_step env ds mp max_norm epoch len_dl nvv batch_idx batch st))) =
      PrintLoss (loss_value_of env (model st) True nvv batch)"
    by simp
next
  from train_loop_losses [of data_loader env ds mp max_norm epoch "length data_loader"
      "num_valid_voxels ds" 0
      "\<lparr>model = m, running_loss = Fin 0, running_corr = Fin 0, meters = [], wandb = [],
        calls = []\<rparr>"]
  show "\<exists>ms. length ms \<le> length data_loader \<and>
      map snd (filter (\<lambda>kv. fst kv = ''loss'')
        (meters (state_of (train_one_epoch env ds mp max_norm epoch m data_loader)))) =
      map (\<lambda>(m', b). loss_value_of env m' True (num_valid_voxels ds) b) (zip ms data_loader)"
    by (simp add: train_one_epoch_def)
next
  fix res st'
  assume "evaluate env ds mp m data_loader = Inr (res, st')"
  then have "eval_loop env ds mp m (num_valid_voxels ds) data_loader
               \<lparr>preds = [], ys = [], eval_meters = [], eval_calls = []\<rparr> = Inr st'"
    by (auto simp: evaluate_def split: sum.splits)
  from eval_loop_meters [OF this]
  show "eval_meters st' =
      map (\<lambda>b. (''loss_labels'', loss_value_of env m False (num_valid_voxels ds) b)) data_loader"
    by simp
next
  show "loss_value_of
     (env\<lparr>criterion := \<lambda>outputs targets.
            fadd (criterion env outputs targets) (criterion env outputs targets)\<rparr>)
     m training (2 * nvv) batch = loss_value_of env m training nvv batch"
    by (simp add: loss_value_of_def fdiv_doubled)
next
  show "num_valid_voxels (ds\<lparr>mask := mask ds @ mask ds\<rparr>) = 2 * num_valid_voxels ds"
    by (simp add: num_valid_voxels_def)
qed

theorem C6_witness:
  "isfinite (loss_value_of 
     \<lparr>forward = \<lambda>(m::nat) tr (x::unit). \<lparr>dim0 = 1, dim1 = 2, dim2 = 2,
                  cell3 = \<lambda>b p s. int m + int p + int s\<rparr>,
       criterion = \<lambda>(outputs::int tensor3) targets. Fin 6,
       backward = \<lambda>m x targets n. (5::int), clip_grad_norm = \<lambda>g mx. 1,
       optimizer_step = \<lambda>m g. m + nat g, learning_rate = \<lambda>m. Fin (1 / 10),
       corrcoef = \<lambda>xs zs. Fin (real_of_int (sum_list (map2 (*) xs zs)))\<rparr> 0 True 3 ((), \<lparr>dim0 = 1, dim1 = 2, dim2 = 2, cell3 = \<lambda>b p s. 1 + int s\<rparr>)) \<and>
   take 2 (meters (state_of (train_step 
     \<lparr>forward = \<lambda>(m::nat) tr (x::unit). \<lparr>dim0 = 1, dim1 = 2, dim2 = 2,
                  cell3 = \<lambda>b p s. int m + int p + int s\<rparr>,
       criterion = \<lambda>(outputs::int tensor3) targets. Fin 6,
       backward = \<lambda>m x targets n. (5::int), clip_grad_norm = \<lambda>g mx. 1,
       optimizer_step = \<lambda>m g. m + nat g, learning_rate = \<lambda>m. Fin (1 / 10),
       corrcoef = \<lambda>xs zs. Fin (real_of_int (sum_list (map2 (*) xs zs)))\<rparr> 
     \<lparr>parcels = [[0, 2], [3]], mask = [[True, True], [True, False]],
       labels = [[1], [1], [0], [1]], num_hemi_voxels = 4, num_parcels = 2,
       max_parcel_size = 2\<rparr> 1 (Fin 0) 2 20 3 0 ((), \<lparr>dim0 = 1, dim1 = 2, dim2 = 2, cell3 = \<lambda>b p s. 1 + int s\<rparr>) 
     \<lparr>model = 0, running_loss = Fin 0, running_corr = Fin 0, meters = [], wandb = [],
       calls = []\<rparr>))) =
     [(''loss'', Fin 2), (''loss_labels'', Fin 2)] \<and>
   (case evaluate 
     \<lparr>forward = \<lambda>(m::nat) tr (x::unit). \<lparr>dim0 = 1, dim1 = 2, dim2 = 2,
                  cell3 = \<lambda>b p s. int m + int p + int s\<rparr>,
       criterion = \<lambda>(outputs::int tensor3) targets. Fin 6,
       backward = \<lambda>m x targets n. (5::int), clip_grad_norm = \<lambda>g mx. 1,
       optimizer_step = \<lambda>m g. m + nat g, learning_rate = \<lambda>m. Fin (1 / 10),
       corrcoef = \<lambda>xs zs. Fin (real_of_int (sum_list (map2 (*) xs zs)))\<rparr> 
     \<lparr>parcels = [[0, 2], [3]], mask = [[True, True], [True, False]],
       labels = [[1], [1], [0], [1]], num_hemi_voxels = 4, num_parcels = 2,
       max_parcel_size = 2\<rparr> 1 0 [((), \<lparr>dim0 = 1, dim1 = 2, dim2 = 2, cell3 = \<lambda>b p s. 1 + int s\<rparr>)] of
      Inl e \<Rightarrow> False
    | Inr (res, st') \<Rightarrow> eval_meters st' = [(''loss_labels'', Fin 2)])"
proof -
  let ?envF = "\<lparr>forward = \<lambda>(m::nat) tr (x::unit). \<lparr>dim0 = 1, dim1 = 2, dim2 = 2,
                  cell3 = \<lambda>b p s. int m + int p + int s\<rparr>,
       criterion = \<lambda>(outputs::int tensor3) targets. Fin 6,
       backward = \<lambda>m x targets n. (5::int), clip_grad_norm = \<lambda>g mx. 1,
       optimizer_step = \<lambda>m g. m + nat g, learning_rate = \<lambda>m. Fin (1 / 10),
       corrcoef = \<lambda>xs zs. Fin (real_of_int (sum_list (map2 (*) xs zs)))\<rparr>"
  let ?ds = "\<lparr>parcels = [[0, 2], [3]], mask = [[True, True], [True, False]],
       labels = [[1], [1], [0], [1]], num_hemi_voxels = 4, num_parcels = 2,
       max_parcel_size = 2\<rparr>"
  let ?T = "\<lparr>dim0 = 1, dim1 = 2, dim2 = 2, cell3 = \<lambda>b p s. 1 + int s\<rparr>"
  let ?st = "\<lparr>model = 0, running_loss = Fin 0, running_corr = Fin 0, meters = [], wandb = [],
       calls = []\<rparr>"
  have ev: "case evaluate ?envF ?ds 1 0 [((), ?T)] of Inl e \<Rightarrow> False | Inr r \<Rightarrow> True"
    by code_simp
  then obtain res st' where r: "evaluate ?envF ?ds 1 0 [((), ?T)] = Inr (res, st')"
    by (auto split: sum.splits)
  note c6 = C6_loss_normalised_by_valid_voxel_count
         [of ?envF 0 True 3 "((), ?T)" ?st ?ds 1 "Fin 0" 2 20 0 "[((), ?T)]"]
  have nvv: "num_valid_voxels ?ds = 3"
    by (simp add: num_valid_voxels_def)
  from c6 r have "eval_meters st' = [(''loss_labels'', Fin 2)]"
    by (simp add: loss_value_of_def nvv)
  then have em: "eval_meters (snd (res, st')) = [(''loss_labels'', Fin 2)]"
    by simp
  have fin: "isfinite (loss_value_of ?envF 0 True 3 ((), ?T))"
    by (simp add: loss_value_of_def)
  from c6 [THEN conjunct2, THEN conjunct1] fin
  have tk: "take 2 (meters (state_of (train_step ?envF ?ds 1 (Fin 0) 2 20 3 0 ((), ?T) ?st))) =
     [(''loss'', Fin 2), (''loss_labels'', Fin 2)]"
    by (simp add: loss_value_of_def)
  show ?thesis
    unfolding r using fin tk em by simp
qed

text \<open>
  C7. In a training step with a finite loss, predictions and targets are each passed
  through \<open>unwrap_fmri\<close> for the metaparcel, and one correlation of the flattened
  reconstructed prediction against the flattened reconstructed target is added to the
  running correlation, the loss to the running loss. When
  \<open>batch_idx % print_freq = print_freq - 1\<close> the two running sums divided by
  \<open>print_freq\<close> are logged, with the epoch and the global batch number, and both sums
  are reset to 0; at every other step nothing is logged and the sums are kept.
\<close>

theorem C7_correlation_and_loss_tracking:
  assumes "isfinite (loss_value_of env (model st) True nvv batch)"
    and "unwrap_fmri (dim0 (forward env (model st) True (fst batch)))
           (forward env (model st) True (fst batch)) ds mp = Inr out"
    and "unwrap_fmri (dim0 (snd batch)) (snd batch) ds mp = Inr y"
    and "length (flatten out) = length (flatten y)"
  shows "\<exists>st'. train_step env ds mp max_norm epoch len_dl nvv batch_idx batch st = Completed st' \<and>
     (if batch_idx mod print_freq = print_freq - 1
      then wandb st' = wandb st @
             [\<lparr>training_loss =
                 fdiv (fadd (running_loss st) (loss_value_of env (model st) True nvv batch))
                   print_freq,
               epoch_logged = epoch,
               training_corr =
                 fdiv (fadd (running_corr st) (corrcoef env (flatten out) (flatten y)))
                   print_freq,
               batch_logged = int batch_idx + epoch * int len_dl\<rparr>] \<and>
           running_loss st' = Fin 0 \<and> running_corr st' = Fin 0
      else wandb st' = wandb st \<and>
           running_loss st' = fadd (running_loss st) (loss_value_of env (model st) True nvv batch) \<and>
           running_corr st' = fadd (running_corr st) (corrcoef env (flatten out) (flatten y)))"
proof -
  obtain imgs targets where b: "batch = (imgs, targets)"
    by (cases batch) auto
  show ?thesis
    using assms
    by (simp add: train_step_def b loss_value_of_def Let_def)
qed

theorem C7_witness:
  "wandb (state_of (train_step 
     \<lparr>forward = \<lambda>(m::nat) tr (x::unit). \<lparr>dim0 = 1, dim1 = 2, dim2 = 2,
                  cell3 = \<lambda>b p s. int m + int p + int s\<rparr>,
       criterion = \<lambda>(outputs::int tensor3) targets. Fin 6,
       backward = \<lambda>m x targets n. (5::int), clip_grad_norm = \<lambda>g mx. 1,
       optimizer_step = \<lambda>m g. m + nat g, learning_rate = \<lambda>m. Fin (1 / 10),
       corrcoef = \<lambda>xs zs. Fin (real_of_int (sum_list (map2 (*) xs zs)))\<rparr> 
     \<lparr>parcels = [[0, 2], [3]], mask = [[True, True], [True, False]],
       labels = [[1], [1], [0], [1]], num_hemi_voxels = 4, num_parcels = 2,
       max_parcel_size = 2\<rparr> 1 (Fin 0) 2 20 3 9 ((), \<lparr>dim0 = 1, dim1 = 2, dim2 = 2, cell3 = \<lambda>b p s. 1 + int s\<rparr>) 
     \<lparr>model = 0, running_loss = Fin 18, running_corr = Fin 4, meters = [], wandb = [],
       calls = []\<rparr>)) =
     [\<lparr>training_loss = Fin 2, epoch_logged = 2, training_corr = Fin (1 / 2),
       batch_logged = 49\<rparr>] \<and>
   running_loss (state_of (train_step 
     \<lparr>forward = \<lambda>(m::nat) tr (x::unit). \<lparr>dim0 = 1, dim1 = 2, dim2 = 2,
                  cell3 = \<lambda>b p s. int m + int p + int s\<rparr>,
       criterion = \<lambda>(outputs::int tensor3) targets. Fin 6,
       backward = \<lambda>m x targets n. (5::int), clip_grad_norm = \<lambda>g mx. 1,
       optimizer_step = \<lambda>m g. m + nat g, learning_rate = \<lambda>m. Fin (1 / 10),
       corrcoef = \<lambda>xs zs. Fin (real_of_int (sum_list (map2 (*) xs zs)))\<rparr> 
     \<lparr>parcels = [[0, 2], [3]], mask = [[True, True], [True, False]],
       labels = [[1], [1], [0], [1]], num_hemi_voxels = 4, num_parcels = 2,
       max_parcel_size = 2\<rparr> 1 (Fin 0) 2 20 3 9 ((), \<lparr>dim0 = 1, dim1 = 2, dim2 = 2, cell3 = \<lambda>b p s. 1 + int s\<rparr>) 
     \<lparr>model = 0, running_loss = Fin 18, running_corr = Fin 4, meters = [], wandb = [],
       calls = []\<rparr>)) = Fin 0 \<and>
   running_corr (state_of (train_step 
     \<lparr>forward = \<lambda>(m::nat) tr (x::unit). \<lparr>dim0 = 1, dim1 = 2, dim2 = 2,
                  cell3 = \<lambda>b p s. int m + int p + int s\<rparr>,
       criterion = \<lambda>(outputs::int tensor3) targets. Fin 6,
       backward = \<lambda>m x targets n. (5::int), clip_grad_norm = \<lambda>g mx. 1,
       optimizer_step = \<lambda>m g. m + nat g, learning_rate = \<lambda>m. Fin (1 / 10),
       corrcoef = \<lambda>xs zs. Fin (real_of_int (sum_list (map2 (*) xs zs)))\<rparr> 
     \<lparr>parcels = [[0, 2], [3]], mask = [[True, True], [True, False]],
       labels = [[1], [1], [0], [1]], num_hemi_voxels = 4, num_parcels = 2,
       max_parcel_size = 2\<rparr> 1 (Fin 0) 2 20 3 9 ((), \<lparr>dim0 = 1, dim1 = 2, dim2 = 2, cell3 = \<lambda>b p s. 1 + int s\<rparr>) 
     \<lparr>model = 0, running_loss = Fin 18, running_corr = Fin 4, meters = [], wandb = [],
       calls = []\<rparr>)) = Fin 0 \<and>
   wandb (state_of (train_step 
     \<lparr>forward = \<lambda>(m::nat) tr (x::unit). \<lparr>dim0 = 1, dim1 = 2, dim2 = 2,
                  cell3 = \<lambda>b p s. int m + int p + int s\<rparr>,
       criterion = \<lambda>(outputs::int tensor3) targets. Fin 6,
       backward = \<lambda>m x targets n. (5::int), clip_grad_norm = \<lambda>g mx. 1,
       optimizer_step = \<lambda>m g. m + nat g, learning_rate = \<lambda>m. Fin (1 / 10),
       corrcoef = \<lambda>xs zs. Fin (real_of_int (sum_list (map2 (*) xs zs)))\<rparr> 
     \<lparr>parcels = [[0, 2], [3]], mask = [[True, True], [True, False]],
       labels = [[1], [1], [0], [1]], num_hemi_voxels = 4, num_parcels = 2,
       max_parcel_size = 2\<rparr> 1 (Fin 0) 2 20 3 3 ((), \<lparr>dim0 = 1, dim1 = 2, dim2 = 2, cell3 = \<lambda>b p s. 1 + int s\<rparr>) 
     \<lparr>model = 0, running_loss = Fin 18, running_corr = Fin 4, meters = [], wandb = [],
       calls = []\<rparr>)) = [] \<and>
   running_loss (state_of (train_step 
     \<lparr>forward = \<lambda>(m::nat) tr (x::unit). \<lparr>dim0 = 1, dim1 = 2, dim2 = 2,
                  cell3 = \<lambda>b p s. int m + int p + int s\<rparr>,
       criterion = \<lambda>(outputs::int tensor3) targets. Fin 6,
       backward = \<lambda>m x targets n. (5::int), clip_grad_norm = \<lambda>g mx. 1,
       optimizer_step = \<lambda>m g. m + nat g, learning_rate = \<lambda>m. Fin (1 / 10),
       corrcoef = \<lambda>xs zs. Fin (real_of_int (sum_list (map2 (*) xs zs)))\<rparr> 
     \<lparr>parcels = [[0, 2], [3]], mask = [[True, True], [True, False]],
       labels = [[1], [1], [0], [1]], num_hemi_voxels = 4, num_parcels = 2,
       max_parcel_size = 2\<rparr> 1 (Fin 0) 2 20 3 3 ((), \<lparr>dim0 = 1, dim1 = 2, dim2 = 2, cell3 = \<lambda>b p s. 1 + int s\<rparr>) 
     \<lparr>model = 0, running_loss = Fin 18, running_corr = Fin 4, meters = [], wandb = [],
       calls = []\<rparr>)) = Fin 20 \<and>
   running_corr (state_of (train_step 
     \<lparr>forward = \<lambda>(m::nat) tr (x::unit). \<lparr>dim0 = 1, dim1 = 2, dim2 = 2,
                  cell3 = \<lambda>b p s. int m + int p + int s\<rparr>,
       criterion = \<lambda>(outputs::int tensor3) targets. Fin 6,
       backward = \<lambda>m x targets n. (5::int), clip_grad_norm = \<lambda>g mx. 1,
       optimizer_step = \<lambda>m g. m + nat g, learning_rate = \<lambda>m. Fin (1 / 10),
       corrcoef = \<lambda>xs zs. Fin (real_of_int (sum_list (map2 (*) xs zs)))\<rparr> 
     \<lparr>parcels = [[0, 2], [3]], mask = [[True, True], [True, False]],
       labels = [[1], [1], [0], [1]], num_hemi_voxels = 4, num_parcels = 2,
       max_parcel_size = 2\<rparr> 1 (Fin 0) 2 20 3 3 ((), \<lparr>dim0 = 1, dim1 = 2, dim2 = 2, cell3 = \<lambda>b p s. 1 + int s\<rparr>) 
     \<lparr>model = 0, running_loss = Fin 18, running_corr = Fin 4, meters = [], wandb = [],
       calls = []\<rparr>)) = Fin 5"
proof -
  let ?envF = "\<lparr>forward = \<lambda>(m::nat) tr (x::unit). \<lparr>dim0 = 1, dim1 = 2, dim2 = 2,
                  cell3 = \<lambda>b p s. int m + int p + int s\<rparr>,
       criterion = \<lambda>(outputs::int tensor3) targets. Fin 6,
       backward = \<lambda>m x targets n. (5::int), clip_grad_norm = \<lambda>g mx. 1,
       optimizer_step = \<lambda>m g. m + nat g, learning_rate = \<lambda>m. Fin (1 / 10),
       corrcoef = \<lambda>xs zs. Fin (real_of_int (sum_list (map2 (*) xs zs)))\<rparr>"
  let ?ds = "\<lparr>parcels = [[0, 2], [3]], mask = [[True, True], [True, False]],
       labels = [[1], [1], [0], [1]], num_hemi_voxels = 4, num_parcels = 2,
       max_parcel_size = 2\<rparr>"
  let ?T = "\<lparr>dim0 = 1, dim1 = 2, dim2 = 2, cell3 = \<lambda>b p s. 1 + int s\<rparr>"
  let ?st18 = "\<lparr>model = 0, running_loss = Fin 18, running_corr = Fin 4, meters = [], wandb = [],
       calls = []\<rparr>"
  let ?O = "\<lparr>dim0 = 1, dim1 = 2, dim2 = 2, cell3 = \<lambda>b p s. int (0::nat) + int p + int s\<rparr>"
  have fin: "isfinite (loss_value_of ?envF (model ?st18) True 3 ((), ?T))"
    by (simp add: loss_value_of_def)
  have "case unwrap_fmri 1 ?O ?ds 1 of Inl e \<Rightarrow> False | Inr t \<Rightarrow> flatten t = [0, 0, 1]"
    by code_simp
  then obtain out where o: "unwrap_fmri 1 ?O ?ds 1 = Inr out" "flatten out = [0, 0, 1]"
    by (auto split: sum.splits)
  have "case unwrap_fmri 1 ?T ?ds 1 of Inl e \<Rightarrow> False | Inr t \<Rightarrow> flatten t = [1, 0, 1]"
    by code_simp
  then obtain y where y: "unwrap_fmri 1 ?T ?ds 1 = Inr y" "flatten y = [1, 0, 1]"
    by (auto split: sum.splits)
  have uo: "unwrap_fmri (dim0 (forward ?envF (model ?st18) True (fst ((), ?T))))
              (forward ?envF (model ?st18) True (fst ((), ?T))) ?ds 1 = Inr out"
    using o by simp
  have uy: "unwrap_fmri (dim0 (snd ((), ?T))) (snd ((), ?T)) ?ds 1 = Inr y"
    using y by simp
  have len: "length (flatten out) = length (flatten y)"
    using o y by simp
  from C7_correlation_and_loss_tracking [OF fin uo uy len, of "Fin 0" 2 20 9]
       C7_correlation_and_loss_tracking [OF fin uo uy len, of "Fin 0" 2 20 3]
  show ?thesis
    using o y by (auto simp: loss_value_of_def print_freq_def)
qed


end
